theory Spec2Isabelle
  imports Complex_Main "HOL-Library.Word"
begin

section \<open>Go values\<close>

text \<open>
  The program stores and forwards numbers; it never computes with them. A \<^verbatim>\<open>float64\<close> is
  therefore kept as its IEEE 754 binary64 bit pattern, so that every value a caller can pass
  (negative numbers, infinities, NaN) is a value of the model and "stored unchanged" means
  bit for bit. \<^verbatim>\<open>int64\<close> and \<^verbatim>\<open>time.Duration\<close> (an \<^verbatim>\<open>int64\<close> of nanoseconds) are 64-bit
  words read with \<^const>\<open>sint\<close>. A \<^verbatim>\<open>[]byte\<close> is a list of bytes; the nil slice is the empty
  list.
\<close>

type_synonym byte = "8 word"
type_synonym int64 = "64 word"
type_synonym duration = "64 word"
type_synonym float64 = "64 word"

definition Second :: duration where
  \<comment> \<open>\<^verbatim>\<open>time.Second\<close>\<close>
  "Second = 1000000000"

text \<open>
  The number a bit pattern stands for: sign bit, 11 bits of biased exponent, 52 bits of
  fraction; \<open>None\<close> for the infinities and NaN (exponent 2047).
\<close>

definition float64_value :: "float64 \<Rightarrow> real option" where
  "float64_value x =
     (let n = unat x;
          s = n div 2 ^ 63;
          e = n div 2 ^ 52 mod 2 ^ 11;
          m = n mod 2 ^ 52
      in if e = 2047 then None
         else Some ((if s = 1 then - 1 else 1) *
                    (if e = 0 then real m * 2 powi (- 1074)
                     else (2 ^ 52 + real m) * 2 powi (int e - 1075))))"

text \<open>The literals of the source, as the compiler rounds them to \<^verbatim>\<open>float64\<close>.\<close>

definition float64_1_0 :: float64 where
  "float64_1_0 = 0x3FF0000000000000"

definition float64_8_5 :: float64 where
  "float64_8_5 = 0x4021000000000000"

definition float64_11_0 :: float64 where
  "float64_11_0 = 0x4026000000000000"

definition float64_0_4 :: float64 where
  "float64_0_4 = 0x3FD999999999999A"

subsection \<open>Errors and panics\<close>

text \<open>
  An \<^verbatim>\<open>error\<close> is either a value made outside this repository (by the browser driver, the
  command framework or the operating system), of which only the text is kept, or the result
  of \<^verbatim>\<open>fmt.Errorf(prefix + "%w", err)\<close>, which wraps \<open>err\<close>. The nil error is \<open>None\<close>.
\<close>

datatype error = External string | Errorf string error

fun Error :: "error \<Rightarrow> string" where
  "Error (External msg) = msg"
| "Error (Errorf prefix err) = prefix @ Error err"

datatype panic = NilPointerDereference | IndexOutOfRange

section \<open>The browser automation layer\<close>

text \<open>
  The packages \<^verbatim>\<open>context\<close>, \<^verbatim>\<open>chromedp\<close> and \<^verbatim>\<open>cdproto/page\<close> are not part of the repository.
  What the program hands to them is modelled as data (contexts, launch flags, call
  parameters); what they answer is a parameter of the model, the record \<open>chrome\<close> below.
\<close>

datatype ExecAllocatorOption = DisableGPU | NoSandbox | Headless | UserAgent string

datatype "context" =
    Background
  | context_WithTimeout "context" duration
  | NewExecAllocator "context" "ExecAllocatorOption list"
  | NewContext "context"

record PrintToPDFParams =
  Landscape :: bool
  PrintBackground :: bool
  Scale :: float64
  PaperWidth :: float64
  PaperHeight :: float64
  MarginTop :: float64
  MarginBottom :: float64
  MarginLeft :: float64
  MarginRight :: float64
  PageRanges :: string

record CaptureScreenshotParams =
  Format :: string
  Quality :: int64
  FromSurface :: bool
  CaptureBeyondViewport :: bool

text \<open>
  \<^verbatim>\<open>page.PrintToPDF()\<close> and \<^verbatim>\<open>page.CaptureScreenshot()\<close> return zero-valued parameters; each
  \<^verbatim>\<open>With...\<close> of the builder chain stores its argument in the field of the same name.
\<close>

definition page_PrintToPDF :: PrintToPDFParams where
  "page_PrintToPDF = \<lparr>Landscape = False, PrintBackground = False, Scale = 0, PaperWidth = 0,
     PaperHeight = 0, MarginTop = 0, MarginBottom = 0, MarginLeft = 0, MarginRight = 0,
     PageRanges = ''''\<rparr>"

definition page_CaptureScreenshot :: CaptureScreenshotParams where
  "page_CaptureScreenshot =
     \<lparr>Format = '''', Quality = 0, FromSurface = False, CaptureBeyondViewport = False\<rparr>"

text \<open>
  The calls that reach the browser layer, in the order they are made: the allocation of the
  browser process when \<^verbatim>\<open>chromedp.Run\<close> starts, the three remote calls, and the cancel
  functions of the three contexts.
\<close>

datatype call =
    Allocate "context"
  | Page_navigate string
  | Page_printToPDF PrintToPDFParams
  | Page_captureScreenshot CaptureScreenshotParams
  | Cancel "context"

record chrome =
  allocate :: "context \<Rightarrow> error option"
  navigate :: "context \<Rightarrow> string \<Rightarrow> error option"
  printToPDF :: "context \<Rightarrow> PrintToPDFParams \<Rightarrow> byte list \<times> string \<times> error option"
  captureScreenshot :: "context \<Rightarrow> CaptureScreenshotParams \<Rightarrow> byte list \<times> error option"

text \<open>
  A \<^verbatim>\<open>chromedp.Action\<close> runs under a context, may assign the variables its closure captured
  (the state \<open>'st\<close>), makes calls and returns an error or nil. \<^verbatim>\<open>chromedp.Tasks\<close> runs
  its actions in order and stops at the first error; \<^verbatim>\<open>chromedp.Run\<close> first allocates the
  browser and returns the allocation's error as it is.
\<close>

type_synonym 'st Action = "context \<Rightarrow> 'st \<times> call list \<Rightarrow> ('st \<times> call list) \<times> error option"

definition chromedp_Navigate :: "chrome \<Rightarrow> string \<Rightarrow> 'st Action" where
  "chromedp_Navigate c urlstr =
     (\<lambda>ctx (st, tr). ((st, tr @ [Page_navigate urlstr]), navigate c ctx urlstr))"

fun Tasks_Do :: "'st Action list \<Rightarrow> 'st Action" where
  "Tasks_Do [] ctx s = (s, None)"
| "Tasks_Do (a # as) ctx s =
     (case a ctx s of
        (s', Some err) \<Rightarrow> (s', Some err)
      | (s', None) \<Rightarrow> Tasks_Do as ctx s')"

definition chromedp_Run :: "chrome \<Rightarrow> context \<Rightarrow> 'st Action list \<Rightarrow> 'st \<times> call list
    \<Rightarrow> ('st \<times> call list) \<times> error option" where
  "chromedp_Run c ctx actions s =
     (let s1 = (fst s, snd s @ [Allocate ctx])
      in case allocate c ctx of
           Some err \<Rightarrow> (s1, Some err)
         | None \<Rightarrow> Tasks_Do actions ctx s1)"

section \<open>Package webpage\<close>

definition DefaultTimeout :: duration where
  "DefaultTimeout = 30 * Second"

record BrowserOptions =
  timeout :: duration
  userAgent :: string

text \<open>
  An option is a Go function that assigns through the pointer it is given: a function from
  the struct before the call to the struct after it. The type holds the functions that
  return; a nil function value is not among them.
\<close>

type_synonym BrowserOption = "BrowserOptions \<Rightarrow> BrowserOptions"

definition WithTimeout :: "duration \<Rightarrow> BrowserOption" where
  "WithTimeout d = (\<lambda>o'. o'\<lparr>timeout := d\<rparr>)"

definition WithUserAgent :: "string \<Rightarrow> BrowserOption" where
  "WithUserAgent ua = (\<lambda>o'. o'\<lparr>userAgent := ua\<rparr>)"

text \<open>The field \<open>browser\<close> is a pointer: \<open>None\<close> is nil, as in the zero \<^verbatim>\<open>Webpage{}\<close>.\<close>

record Webpage =
  url :: string
  browser :: "BrowserOptions option"

text \<open>The loop \<^verbatim>\<open>for _, opt := range opts { opt(p) }\<close> of \<^verbatim>\<open>New\<close>, \<^verbatim>\<open>PDF\<close> and \<^verbatim>\<open>Screenshot\<close>.\<close>

fun range_opts :: "('o \<Rightarrow> 'o) list \<Rightarrow> 'o \<Rightarrow> 'o" where
  "range_opts [] p = p"
| "range_opts (opt # opts) p = range_opts opts (opt p)"

definition New :: "string \<Rightarrow> BrowserOption list \<Rightarrow> Webpage" where
  "New u opts =
     (let b = \<lparr>timeout = DefaultTimeout, userAgent = ''''\<rparr>;
          b = range_opts opts b
      in \<lparr>url = u, browser = Some b\<rparr>)"

record PDFOptions =
  landscape :: bool
  background :: bool
  scale :: float64
  pagerWidth :: float64
  pagerHeight :: float64
  marginTop :: float64
  marginBottom :: float64
  marginLeft :: float64
  marginRight :: float64
  pageRanges :: string

type_synonym PDFOption = "PDFOptions \<Rightarrow> PDFOptions"

definition WithLandscape :: "bool \<Rightarrow> PDFOption" where
  "WithLandscape enable = (\<lambda>o'. o'\<lparr>landscape := enable\<rparr>)"

definition WithBackground :: "bool \<Rightarrow> PDFOption" where
  "WithBackground enable = (\<lambda>o'. o'\<lparr>background := enable\<rparr>)"

definition WithScale :: "float64 \<Rightarrow> PDFOption" where
  "WithScale s = (\<lambda>o'. o'\<lparr>scale := s\<rparr>)"

definition WithPaperWidth :: "float64 \<Rightarrow> PDFOption" where
  "WithPaperWidth width = (\<lambda>o'. o'\<lparr>pagerWidth := width\<rparr>)"

definition WithPaperHeight :: "float64 \<Rightarrow> PDFOption" where
  "WithPaperHeight height = (\<lambda>o'. o'\<lparr>pagerHeight := height\<rparr>)"

definition WithMarginTop :: "float64 \<Rightarrow> PDFOption" where
  "WithMarginTop top' = (\<lambda>o'. o'\<lparr>marginTop := top'\<rparr>)"

definition WithMarginBottom :: "float64 \<Rightarrow> PDFOption" where
  "WithMarginBottom bottom = (\<lambda>o'. o'\<lparr>marginBottom := bottom\<rparr>)"

definition WithMarginLeft :: "float64 \<Rightarrow> PDFOption" where
  "WithMarginLeft left = (\<lambda>o'. o'\<lparr>marginLeft := left\<rparr>)"

definition WithMarginRight :: "float64 \<Rightarrow> PDFOption" where
  "WithMarginRight right = (\<lambda>o'. o'\<lparr>marginRight := right\<rparr>)"

definition WithPageRanges :: "string \<Rightarrow> PDFOption" where
  "WithPageRanges ranges = (\<lambda>o'. o'\<lparr>pageRanges := ranges\<rparr>)"

text \<open>
  What a method of \<^verbatim>\<open>*Webpage\<close> leaves behind: the struct the receiver points to after the
  call, the calls made to the browser layer, and either a panic or the returned pair. The
  receiver points to a struct; the struct's \<open>browser\<close> pointer may be nil.
\<close>

record 'a outcome =
  handle :: Webpage
  calls :: "call list"
  result :: "panic + 'a"

text \<open>Lines 122 to 125: the zero \<^verbatim>\<open>PDFOptions{}\<close>, then the options in order.\<close>

definition PDF_pdfOpts :: "PDFOption list \<Rightarrow> PDFOptions" where
  "PDF_pdfOpts opts =
     range_opts opts
       \<lparr>landscape = False, background = False, scale = 0, pagerWidth = 0, pagerHeight = 0,
        marginTop = 0, marginBottom = 0, marginLeft = 0, marginRight = 0, pageRanges = ''''\<rparr>"

text \<open>Lines 127 to 135 and 207 to 215: the launch flags, the same code in both methods.\<close>

definition execOpts :: "BrowserOptions \<Rightarrow> ExecAllocatorOption list" where
  "execOpts b =
     (let execOpts = [DisableGPU, NoSandbox, Headless]
      in if userAgent b \<noteq> '''' then execOpts @ [UserAgent (userAgent b)] else execOpts)"

text \<open>
  Lines 149 to 169: the closure that prints. It assigns the captured \<open>pdfBuf\<close> whatever
  \<^verbatim>\<open>Do\<close> returned, also when \<^verbatim>\<open>Do\<close> returned an error.
\<close>

definition PDF_print :: "chrome \<Rightarrow> PDFOptions \<Rightarrow> (byte list) Action" where
  "PDF_print c pdfOpts =
     (\<lambda>ctx (pdfBuf, tr).
        let p = page_PrintToPDF;
            p = p\<lparr>Landscape := landscape pdfOpts\<rparr>;
            p = p\<lparr>PrintBackground := background pdfOpts\<rparr>;
            p = p\<lparr>Scale := scale pdfOpts\<rparr>;
            p = p\<lparr>PaperWidth := pagerWidth pdfOpts\<rparr>;
            p = p\<lparr>PaperHeight := pagerHeight pdfOpts\<rparr>;
            p = p\<lparr>MarginTop := marginTop pdfOpts\<rparr>;
            p = p\<lparr>MarginBottom := marginBottom pdfOpts\<rparr>;
            p = p\<lparr>MarginLeft := marginLeft pdfOpts\<rparr>;
            p = p\<lparr>MarginRight := marginRight pdfOpts\<rparr>;
            p = p\<lparr>PageRanges := pageRanges pdfOpts\<rparr>;
            (pdfBuf, stream, err) = printToPDF c ctx p
        in ((pdfBuf, tr @ [Page_printToPDF p]),
            case err of
              Some e \<Rightarrow> Some (Errorf ''failed to generate PDF: '' e)
            | None \<Rightarrow> None))"

definition PDF :: "chrome \<Rightarrow> Webpage \<Rightarrow> context \<Rightarrow> PDFOption list
    \<Rightarrow> (byte list \<times> error option) outcome" where
  "PDF c w ctx opts =
     (let pdfOpts = PDF_pdfOpts opts
      in case browser w of
           None \<Rightarrow> \<lparr>handle = w, calls = [], result = Inl NilPointerDereference\<rparr>
         | Some b \<Rightarrow>
             let allocCtx = NewExecAllocator ctx (execOpts b);
                 taskCtx = NewContext allocCtx;
                 timeoutCtx = context_WithTimeout taskCtx (timeout b);
                 tasks = [chromedp_Navigate c (url w), PDF_print c pdfOpts];
                 ((pdfBuf, tr), err) = chromedp_Run c timeoutCtx tasks ([], []);
                 tr = tr @ [Cancel timeoutCtx, Cancel taskCtx, Cancel allocCtx]
             in case err of
                  Some e \<Rightarrow>
                    \<lparr>handle = w, calls = tr,
                     result = Inr ([], Some (Errorf ''failed to execute tasks: '' e))\<rparr>
                | None \<Rightarrow> \<lparr>handle = w, calls = tr, result = Inr (pdfBuf, None)\<rparr>)"

record ScreenshotOptions =
  format :: string
  quality :: int64

type_synonym ScreenshotOption = "ScreenshotOptions \<Rightarrow> ScreenshotOptions"

definition WithFormat :: "string \<Rightarrow> ScreenshotOption" where
  "WithFormat f = (\<lambda>o'. o'\<lparr>format := f\<rparr>)"

definition WithQuality :: "int64 \<Rightarrow> ScreenshotOption" where
  "WithQuality q = (\<lambda>o'. o'\<lparr>quality := q\<rparr>)"

text \<open>Lines 199 to 205.\<close>

definition Screenshot_screenshotOpts :: "ScreenshotOption list \<Rightarrow> ScreenshotOptions" where
  "Screenshot_screenshotOpts opts = range_opts opts \<lparr>format = ''png'', quality = 100\<rparr>"

text \<open>Lines 229 to 241: the closure that captures.\<close>

definition Screenshot_capture :: "chrome \<Rightarrow> ScreenshotOptions \<Rightarrow> (byte list) Action" where
  "Screenshot_capture c screenshotOpts =
     (\<lambda>ctx (screenshotBuf, tr).
        let p = page_CaptureScreenshot;
            p = p\<lparr>CaptureBeyondViewport := True\<rparr>;
            p = p\<lparr>FromSurface := True\<rparr>;
            p = p\<lparr>Format := format screenshotOpts\<rparr>;
            p = p\<lparr>Quality := quality screenshotOpts\<rparr>;
            (screenshotBuf, err) = captureScreenshot c ctx p
        in ((screenshotBuf, tr @ [Page_captureScreenshot p]),
            case err of
              Some e \<Rightarrow> Some (Errorf ''failed to capture screenshot: '' e)
            | None \<Rightarrow> None))"

definition Screenshot :: "chrome \<Rightarrow> Webpage \<Rightarrow> context \<Rightarrow> ScreenshotOption list
    \<Rightarrow> (byte list \<times> error option) outcome" where
  "Screenshot c w ctx opts =
     (let screenshotOpts = Screenshot_screenshotOpts opts
      in case browser w of
           None \<Rightarrow> \<lparr>handle = w, calls = [], result = Inl NilPointerDereference\<rparr>
         | Some b \<Rightarrow>
             let allocCtx = NewExecAllocator ctx (execOpts b);
                 taskCtx = NewContext allocCtx;
                 timeoutCtx = context_WithTimeout taskCtx (timeout b);
                 tasks = [chromedp_Navigate c (url w), Screenshot_capture c screenshotOpts];
                 ((screenshotBuf, tr), err) = chromedp_Run c timeoutCtx tasks ([], []);
                 tr = tr @ [Cancel timeoutCtx, Cancel taskCtx, Cancel allocCtx]
             in case err of
                  Some e \<Rightarrow>
                    \<lparr>handle = w, calls = tr,
                     result = Inr ([], Some (Errorf ''failed to execute tasks: '' e))\<rparr>
                | None \<Rightarrow> \<lparr>handle = w, calls = tr, result = Inr (screenshotBuf, None)\<rparr>)"

section \<open>Package main\<close>

text \<open>
  The package-level variables the flags are bound to. They carry the prefix \<open>flag_\<close> here
  because package \<^verbatim>\<open>webpage\<close> uses the same names for its fields.
\<close>

record flags =
  flag_timeout :: duration
  flag_userAgent :: string
  flag_output :: string
  flag_landscape :: bool
  flag_background :: bool
  flag_scale :: float64
  flag_paperWidth :: float64
  flag_paperHeight :: float64
  flag_marginTop :: float64
  flag_marginBottom :: float64
  flag_marginLeft :: float64
  flag_marginRight :: float64
  flag_pageRanges :: string
  flag_format :: string
  flag_quality :: int64

text \<open>
  \<^verbatim>\<open>init\<close> registers each flag with a default: the values of the variables when the command
  line sets no flag.
\<close>

definition init :: flags where
  "init =
     \<lparr>flag_timeout = 30 * Second, flag_userAgent = '''', flag_output = ''output'',
      flag_landscape = False, flag_background = False, flag_scale = float64_1_0,
      flag_paperWidth = float64_8_5, flag_paperHeight = float64_11_0,
      flag_marginTop = float64_0_4, flag_marginBottom = float64_0_4,
      flag_marginLeft = float64_0_4, flag_marginRight = float64_0_4,
      flag_pageRanges = '''', flag_format = ''png'', flag_quality = 100\<rparr>"

text \<open>
  The process's surroundings: the files, the two output streams and the calls made to the
  browser layer so far.
\<close>

record world =
  files :: "string \<Rightarrow> byte list option"
  stdout :: string
  stderr :: string
  browser_calls :: "call list"

text \<open>The two subcommands \<^verbatim>\<open>init\<close> adds to \<^verbatim>\<open>rootCmd\<close>.\<close>

datatype command = pdfCmd | screenshotCmd

text \<open>
  Everything outside the repository that package \<^verbatim>\<open>main\<close> relies on, as parameters: the
  browser layer, what \<^verbatim>\<open>os.WriteFile\<close> does to the files and returns, the error of
  \<^verbatim>\<open>cobra.ExactArgs\<close> for a wrong number of arguments, and the usage text the framework
  generates for a command.
\<close>

record env =
  driver :: chrome
  os_WriteFile :: "(string \<Rightarrow> byte list option) \<Rightarrow> string \<Rightarrow> byte list
    \<Rightarrow> (string \<Rightarrow> byte list option) \<times> error option"
  args_error :: "nat \<Rightarrow> nat \<Rightarrow> error"
  UsageString :: "command \<Rightarrow> string"

definition newline :: string where
  "newline = [CHR 0x0A]"

text \<open>
  \<^verbatim>\<open>rootCmd\<close>, \<^verbatim>\<open>pdfCmd\<close> and \<^verbatim>\<open>screenshotCmd\<close> set neither \<^verbatim>\<open>SilenceErrors\<close> nor
  \<^verbatim>\<open>SilenceUsage\<close>. For an error it is about to return, \<^verbatim>\<open>Execute\<close> therefore writes to
  standard error the line "Error: " with the error's text and then the usage text of the
  command, each ended by a newline.
\<close>

definition cobra_report :: "env \<Rightarrow> command \<Rightarrow> error \<Rightarrow> string" where
  "cobra_report e cmd err =
     ''Error: '' @ Error err @ newline @ UsageString e cmd @ newline"

definition cobra_ExactArgs :: "env \<Rightarrow> nat \<Rightarrow> string list \<Rightarrow> error option" where
  "cobra_ExactArgs e n args =
     (if length args \<noteq> n then Some (args_error e n (length args)) else None)"

text \<open>Lines 45 to 52 and 90 to 97 of main.go: the handle both subcommands build.\<close>

definition cmd_page :: "flags \<Rightarrow> string \<Rightarrow> Webpage" where
  "cmd_page f u =
     (let opts = [WithTimeout (flag_timeout f)];
          opts = (if flag_userAgent f \<noteq> '''' then opts @ [WithUserAgent (flag_userAgent f)]
                  else opts)
      in New u opts)"

definition pdfCmd_pdfOpts :: "flags \<Rightarrow> PDFOption list" where
  "pdfCmd_pdfOpts f =
     (let pdfOpts =
        [WithLandscape (flag_landscape f),
         WithBackground (flag_background f),
         WithScale (flag_scale f),
         WithPaperWidth (flag_paperWidth f),
         WithPaperHeight (flag_paperHeight f),
         WithMarginTop (flag_marginTop f),
         WithMarginBottom (flag_marginBottom f),
         WithMarginLeft (flag_marginLeft f),
         WithMarginRight (flag_marginRight f)]
      in if flag_pageRanges f \<noteq> '''' then pdfOpts @ [WithPageRanges (flag_pageRanges f)]
         else pdfOpts)"

definition pdfCmd_RunE :: "env \<Rightarrow> flags \<Rightarrow> string list \<Rightarrow> world
    \<Rightarrow> world \<times> (panic + error option)" where
  "pdfCmd_RunE e f args w =
     (case args of
        [] \<Rightarrow> (w, Inl IndexOutOfRange)
      | u # _ \<Rightarrow>
          let page = cmd_page f u;
              out = PDF (driver e) page Background (pdfCmd_pdfOpts f);
              w = w\<lparr>browser_calls := browser_calls w @ calls out\<rparr>
          in case result out of
               Inl p \<Rightarrow> (w, Inl p)
             | Inr (pdf, Some err) \<Rightarrow> (w, Inr (Some (Errorf ''failed to generate PDF: '' err)))
             | Inr (pdf, None) \<Rightarrow>
                 (case os_WriteFile e (files w) (flag_output f) pdf of
                    (fs, Some err) \<Rightarrow>
                      (w\<lparr>files := fs\<rparr>, Inr (Some (Errorf ''failed to write PDF file: '' err)))
                  | (fs, None) \<Rightarrow>
                      (w\<lparr>files := fs,
                         stdout := stdout w @ ''PDF saved to: '' @ flag_output f @ newline\<rparr>,
                       Inr None)))"

definition screenshotCmd_RunE :: "env \<Rightarrow> flags \<Rightarrow> string list \<Rightarrow> world
    \<Rightarrow> world \<times> (panic + error option)" where
  "screenshotCmd_RunE e f args w =
     (case args of
        [] \<Rightarrow> (w, Inl IndexOutOfRange)
      | u # _ \<Rightarrow>
          let page = cmd_page f u;
              screenshotOpts = [WithFormat (flag_format f), WithQuality (flag_quality f)];
              out = Screenshot (driver e) page Background screenshotOpts;
              w = w\<lparr>browser_calls := browser_calls w @ calls out\<rparr>
          in case result out of
               Inl p \<Rightarrow> (w, Inl p)
             | Inr (screenshot, Some err) \<Rightarrow>
                 (w, Inr (Some (Errorf ''failed to capture screenshot: '' err)))
             | Inr (screenshot, None) \<Rightarrow>
                 (case os_WriteFile e (files w) (flag_output f) screenshot of
                    (fs, Some err) \<Rightarrow>
                      (w\<lparr>files := fs\<rparr>,
                       Inr (Some (Errorf ''failed to write screenshot file: '' err)))
                  | (fs, None) \<Rightarrow>
                      (w\<lparr>files := fs,
                         stdout := stdout w @ ''Screenshot saved to: '' @ flag_output f @ newline\<rparr>,
                       Inr None)))"

text \<open>
  \<^verbatim>\<open>rootCmd.Execute()\<close> for a command line that names one of the two subcommands: \<open>f\<close> holds
  the variables after flag parsing and \<open>args\<close> the positional arguments. The argument check
  runs before \<^verbatim>\<open>RunE\<close>; an error is reported by the framework and returned.
\<close>

definition rootCmd_Execute :: "env \<Rightarrow> command \<Rightarrow> flags \<Rightarrow> string list \<Rightarrow> world
    \<Rightarrow> world \<times> (panic + error option)" where
  "rootCmd_Execute e cmd f args w =
     (case cobra_ExactArgs e 1 args of
        Some err \<Rightarrow> (w\<lparr>stderr := stderr w @ cobra_report e cmd err\<rparr>, Inr (Some err))
      | None \<Rightarrow>
          (case (case cmd of
                   pdfCmd \<Rightarrow> pdfCmd_RunE e f args w
                 | screenshotCmd \<Rightarrow> screenshotCmd_RunE e f args w) of
             (w, Inl p) \<Rightarrow> (w, Inl p)
           | (w, Inr (Some err)) \<Rightarrow>
               (w\<lparr>stderr := stderr w @ cobra_report e cmd err\<rparr>, Inr (Some err))
           | (w, Inr None) \<Rightarrow> (w, Inr None)))"

text \<open>
  \<^verbatim>\<open>main\<close>: the world the process leaves and how it ends, with an exit code or by a panic.
\<close>

definition main :: "env \<Rightarrow> command \<Rightarrow> flags \<Rightarrow> string list \<Rightarrow> world \<Rightarrow> world \<times> (panic + nat)" where
  "main e cmd f args w =
     (case rootCmd_Execute e cmd f args w of
        (w, Inl p) \<Rightarrow> (w, Inl p)
      | (w, Inr (Some err)) \<Rightarrow>
          (w\<lparr>stderr := stderr w @ ''Error: '' @ Error err @ newline\<rparr>, Inr 1)
      | (w, Inr None) \<Rightarrow> (w, Inr 0))"

section \<open>Notions used to state the properties\<close>

text \<open>
  The context the tasks run under, for a caller's context \<open>ctx\<close> and the handle's browser
  options: the value of \<open>timeoutCtx\<close> in both methods.
\<close>

definition session :: "context \<Rightarrow> BrowserOptions \<Rightarrow> context" where
  "session ctx b =
     context_WithTimeout (NewContext (NewExecAllocator ctx (execOpts b))) (timeout b)"

text \<open>The browser was allocated and the navigation returned no error.\<close>

definition export_reached :: "chrome \<Rightarrow> context \<Rightarrow> string \<Rightarrow> bool" where
  "export_reached c t u = (allocate c t = None \<and> navigate c t u = None)"

text \<open>The parameters of the print and capture calls among a list of calls, in order.\<close>

fun printToPDF_params :: "call list \<Rightarrow> PrintToPDFParams list" where
  "printToPDF_params [] = []"
| "printToPDF_params (Page_printToPDF p # tr) = p # printToPDF_params tr"
| "printToPDF_params (_ # tr) = printToPDF_params tr"

fun captureScreenshot_params :: "call list \<Rightarrow> CaptureScreenshotParams list" where
  "captureScreenshot_params [] = []"
| "captureScreenshot_params (Page_captureScreenshot p # tr) = p # captureScreenshot_params tr"
| "captureScreenshot_params (_ # tr) = captureScreenshot_params tr"

text \<open>
  The flags a browser process allocated under a context is launched with: those of the
  nearest exec allocator above it. \<open>launch_flags\<close> lists them for each allocation.
\<close>

fun allocator_flags :: "context \<Rightarrow> ExecAllocatorOption list option" where
  "allocator_flags Background = None"
| "allocator_flags (context_WithTimeout parent d) = allocator_flags parent"
| "allocator_flags (NewExecAllocator parent fl) = Some fl"
| "allocator_flags (NewContext parent) = allocator_flags parent"

fun launch_flags :: "call list \<Rightarrow> ExecAllocatorOption list option list" where
  "launch_flags [] = []"
| "launch_flags (Allocate t # tr) = allocator_flags t # launch_flags tr"
| "launch_flags (_ # tr) = launch_flags tr"

text \<open>The timeout of the nearest \<^verbatim>\<open>context.WithTimeout\<close> above a context.\<close>

fun context_timeout :: "context \<Rightarrow> duration option" where
  "context_timeout Background = None"
| "context_timeout (context_WithTimeout parent d) = Some d"
| "context_timeout (NewExecAllocator parent fl) = context_timeout parent"
| "context_timeout (NewContext parent) = context_timeout parent"

text \<open>
  The deadline of each allocation: the timeout of the nearest \<^verbatim>\<open>context.WithTimeout\<close> above
  the context the browser is allocated under.
\<close>

fun launch_timeouts :: "call list \<Rightarrow> duration option list" where
  "launch_timeouts [] = []"
| "launch_timeouts (Allocate t # tr) = context_timeout t # launch_timeouts tr"
| "launch_timeouts (_ # tr) = launch_timeouts tr"

text \<open>Print parameters that carry the fields of a \<^verbatim>\<open>PDFOptions\<close> unchanged.\<close>

definition verbatim :: "PDFOptions \<Rightarrow> PrintToPDFParams" where
  "verbatim po =
     \<lparr>Landscape = landscape po, PrintBackground = background po, Scale = scale po,
      PaperWidth = pagerWidth po, PaperHeight = pagerHeight po, MarginTop = marginTop po,
      MarginBottom = marginBottom po, MarginLeft = marginLeft po,
      MarginRight = marginRight po, PageRanges = pageRanges po\<rparr>"

text \<open>
  Capture parameters with both capture modes on and the format and quality of a
  \<^verbatim>\<open>ScreenshotOptions\<close>.
\<close>

definition full_capture :: "ScreenshotOptions \<Rightarrow> CaptureScreenshotParams" where
  "full_capture so =
     \<lparr>Format = format so, Quality = quality so, FromSurface = True,
      CaptureBeyondViewport = True\<rparr>"

text \<open>
  A sequence of setters is a list of the calls \<^verbatim>\<open>WithX(v)\<close> that made it. \<open>last_or d vs\<close> is
  the last of the values \<open>vs\<close> given for a field, or the default \<open>d\<close> when there is none.
\<close>

datatype BrowserSetter = SetTimeout duration | SetUserAgent string

fun BrowserOption_of :: "BrowserSetter \<Rightarrow> BrowserOption" where
  "BrowserOption_of (SetTimeout d) = WithTimeout d"
| "BrowserOption_of (SetUserAgent ua) = WithUserAgent ua"

datatype PDFSetter =
    SetLandscape bool
  | SetBackground bool
  | SetScale float64
  | SetPaperWidth float64
  | SetPaperHeight float64
  | SetMarginTop float64
  | SetMarginBottom float64
  | SetMarginLeft float64
  | SetMarginRight float64
  | SetPageRanges string

fun PDFOption_of :: "PDFSetter \<Rightarrow> PDFOption" where
  "PDFOption_of (SetLandscape v) = WithLandscape v"
| "PDFOption_of (SetBackground v) = WithBackground v"
| "PDFOption_of (SetScale v) = WithScale v"
| "PDFOption_of (SetPaperWidth v) = WithPaperWidth v"
| "PDFOption_of (SetPaperHeight v) = WithPaperHeight v"
| "PDFOption_of (SetMarginTop v) = WithMarginTop v"
| "PDFOption_of (SetMarginBottom v) = WithMarginBottom v"
| "PDFOption_of (SetMarginLeft v) = WithMarginLeft v"
| "PDFOption_of (SetMarginRight v) = WithMarginRight v"
| "PDFOption_of (SetPageRanges v) = WithPageRanges v"

datatype ScreenshotSetter = SetFormat string | SetQuality int64

fun ScreenshotOption_of :: "ScreenshotSetter \<Rightarrow> ScreenshotOption" where
  "ScreenshotOption_of (SetFormat v) = WithFormat v"
| "ScreenshotOption_of (SetQuality v) = WithQuality v"

definition last_or :: "'a \<Rightarrow> 'a list \<Rightarrow> 'a" where
  "last_or d vs = (if vs = [] then d else last vs)"

subsection \<open>Example surroundings\<close>

text \<open>
  Drivers: one whose navigation fails, one whose print and capture calls fail while handing
  back some bytes, one that serves every call, and two that run into the deadline, the
  first while the browser is allocated, the second while the page loads. The environment
  \<open>offline\<close> puts the driver whose navigation fails under the command line, \<open>online\<close> the one
  that serves; both write files successfully, and their usage text is the first two lines
  of the text the framework generates. The world \<open>disk\<close> already has a file \<^verbatim>\<open>out.pdf\<close>.
\<close>

definition no_browser :: chrome where
  "no_browser =
     \<lparr>allocate = (\<lambda>t. Some (External ''context deadline exceeded'')),
      navigate = (\<lambda>t u. None),
      printToPDF = (\<lambda>t p. ([], '''', None)),
      captureScreenshot = (\<lambda>t p. ([], None))\<rparr>"

definition slow_page :: chrome where
  "slow_page =
     \<lparr>allocate = (\<lambda>t. None),
      navigate = (\<lambda>t u. Some (External ''context deadline exceeded'')),
      printToPDF = (\<lambda>t p. ([], '''', None)),
      captureScreenshot = (\<lambda>t p. ([], None))\<rparr>"

definition usage_head :: "command \<Rightarrow> string" where
  "usage_head cmd =
     ''Usage:'' @ newline @
     (case cmd of
        pdfCmd \<Rightarrow> ''  webpage pdf [url] [flags]''
      | screenshotCmd \<Rightarrow> ''  webpage screenshot [url] [flags]'')"

definition unreachable :: chrome where
  "unreachable =
     \<lparr>allocate = (\<lambda>t. None),
      navigate = (\<lambda>t u. Some (External ''page load error net::ERR_NAME_NOT_RESOLVED'')),
      printToPDF = (\<lambda>t p. ([], '''', None)),
      captureScreenshot = (\<lambda>t p. ([], None))\<rparr>"

definition export_fails :: chrome where
  "export_fails =
     \<lparr>allocate = (\<lambda>t. None),
      navigate = (\<lambda>t u. None),
      printToPDF = (\<lambda>t p. ([0x25, 0x50], '''', Some (External ''Page range syntax error''))),
      captureScreenshot = (\<lambda>t p. ([0x89, 0x50], Some (External ''Invalid parameters'')))\<rparr>"

definition serves :: chrome where
  "serves =
     \<lparr>allocate = (\<lambda>t. None),
      navigate = (\<lambda>t u. None),
      printToPDF = (\<lambda>t p. ([0x25, 0x50, 0x44, 0x46, 0x2D], '''', None)),
      captureScreenshot = (\<lambda>t p. ([0x89, 0x50, 0x4E, 0x47], None))\<rparr>"

definition offline :: env where
  "offline =
     \<lparr>driver = unreachable,
      os_WriteFile = (\<lambda>fs path data. (fs(path \<mapsto> data), None)),
      args_error = (\<lambda>n m. External ''wrong number of arguments''),
      UsageString = usage_head\<rparr>"

definition online :: env where
  "online =
     \<lparr>driver = serves,
      os_WriteFile = (\<lambda>fs path data. (fs(path \<mapsto> data), None)),
      args_error = (\<lambda>n m. External ''wrong number of arguments''),
      UsageString = usage_head\<rparr>"

definition disk :: world where
  "disk =
     \<lparr>files = [''out.pdf'' \<mapsto> [0x6F, 0x6C, 0x64]], stdout = '''', stderr = '''',
      browser_calls = []\<rparr>"

definition float64_minus_1_0 :: float64 where
  "float64_minus_1_0 = 0xBFF0000000000000"

section \<open>The run of the two tasks\<close>

lemma range_opts_append: "range_opts (xs @ ys) p = range_opts ys (range_opts xs p)"
  by (induction xs arbitrary: p) simp_all

lemma PDF_print_eq:
  "PDF_print c po t (buf, tr) =
     ((fst (printToPDF c t (verbatim po)), tr @ [Page_printToPDF (verbatim po)]),
      map_option (Errorf ''failed to generate PDF: '')
        (snd (snd (printToPDF c t (verbatim po)))))"
  by (simp add: PDF_print_def verbatim_def page_PrintToPDF_def Let_def
      split: prod.splits option.splits)

lemma Run_PDF:
  "chromedp_Run c t [chromedp_Navigate c u, PDF_print c po] ([], []) =
     (case allocate c t of
        Some e \<Rightarrow> (([], [Allocate t]), Some e)
      | None \<Rightarrow>
          (case navigate c t u of
             Some e \<Rightarrow> (([], [Allocate t, Page_navigate u]), Some e)
           | None \<Rightarrow>
               ((fst (printToPDF c t (verbatim po)),
                 [Allocate t, Page_navigate u, Page_printToPDF (verbatim po)]),
                map_option (Errorf ''failed to generate PDF: '')
                  (snd (snd (printToPDF c t (verbatim po)))))))"
  by (simp add: chromedp_Run_def chromedp_Navigate_def PDF_print_eq split: option.splits)

lemma PDF_handle: "handle (PDF c w ctx opts) = w"
  by (simp add: PDF_def Let_def split: option.splits prod.splits)

lemma PDF_nil:
  "browser w = None \<Longrightarrow>
   PDF c w ctx opts = \<lparr>handle = w, calls = [], result = Inl NilPointerDereference\<rparr>"
  by (simp add: PDF_def)

lemma PDF_calls:
  "browser w = Some b \<Longrightarrow>
   calls (PDF c w ctx opts) =
     Allocate (session ctx b) #
     (if allocate c (session ctx b) = None
      then Page_navigate (url w) #
           (if navigate c (session ctx b) (url w) = None
            then [Page_printToPDF (verbatim (PDF_pdfOpts opts))] else [])
      else []) @
     [Cancel (session ctx b), Cancel (NewContext (NewExecAllocator ctx (execOpts b))),
      Cancel (NewExecAllocator ctx (execOpts b))]"
  by (simp add: PDF_def Let_def session_def Run_PDF split: option.splits prod.splits)

lemma PDF_result:
  "browser w = Some b \<Longrightarrow>
   result (PDF c w ctx opts) =
     Inr (case allocate c (session ctx b) of
            Some e \<Rightarrow> ([], Some (Errorf ''failed to execute tasks: '' e))
          | None \<Rightarrow>
              (case navigate c (session ctx b) (url w) of
                 Some e \<Rightarrow> ([], Some (Errorf ''failed to execute tasks: '' e))
               | None \<Rightarrow>
                   (case printToPDF c (session ctx b) (verbatim (PDF_pdfOpts opts)) of
                      (pdf, stream, Some e) \<Rightarrow>
                        ([], Some (Errorf ''failed to execute tasks: ''
                                    (Errorf ''failed to generate PDF: '' e)))
                    | (pdf, stream, None) \<Rightarrow> (pdf, None))))"
  by (simp add: PDF_def Let_def session_def Run_PDF split: option.splits prod.splits)

lemma Screenshot_capture_eq:
  "Screenshot_capture c so t (buf, tr) =
     ((fst (captureScreenshot c t (full_capture so)),
       tr @ [Page_captureScreenshot (full_capture so)]),
      map_option (Errorf ''failed to capture screenshot: '')
        (snd (captureScreenshot c t (full_capture so))))"
  by (simp add: Screenshot_capture_def full_capture_def page_CaptureScreenshot_def Let_def
      split: prod.splits option.splits)

lemma Run_Screenshot:
  "chromedp_Run c t [chromedp_Navigate c u, Screenshot_capture c so] ([], []) =
     (case allocate c t of
        Some e \<Rightarrow> (([], [Allocate t]), Some e)
      | None \<Rightarrow>
          (case navigate c t u of
             Some e \<Rightarrow> (([], [Allocate t, Page_navigate u]), Some e)
           | None \<Rightarrow>
               ((fst (captureScreenshot c t (full_capture so)),
                 [Allocate t, Page_navigate u, Page_captureScreenshot (full_capture so)]),
                map_option (Errorf ''failed to capture screenshot: '')
                  (snd (captureScreenshot c t (full_capture so))))))"
  by (simp add: chromedp_Run_def chromedp_Navigate_def Screenshot_capture_eq
      split: option.splits)

lemma Screenshot_handle: "handle (Screenshot c w ctx opts) = w"
  by (simp add: Screenshot_def Let_def split: option.splits prod.splits)

lemma Screenshot_nil:
  "browser w = None \<Longrightarrow>
   Screenshot c w ctx opts = \<lparr>handle = w, calls = [], result = Inl NilPointerDereference\<rparr>"
  by (simp add: Screenshot_def)

lemma Screenshot_calls:
  "browser w = Some b \<Longrightarrow>
   calls (Screenshot c w ctx opts) =
     Allocate (session ctx b) #
     (if allocate c (session ctx b) = None
      then Page_navigate (url w) #
           (if navigate c (session ctx b) (url w) = None
            then [Page_captureScreenshot (full_capture (Screenshot_screenshotOpts opts))]
            else [])
      else []) @
     [Cancel (session ctx b), Cancel (NewContext (NewExecAllocator ctx (execOpts b))),
      Cancel (NewExecAllocator ctx (execOpts b))]"
  by (simp add: Screenshot_def Let_def session_def Run_Screenshot
      split: option.splits prod.splits)

lemma Screenshot_result:
  "browser w = Some b \<Longrightarrow>
   result (Screenshot c w ctx opts) =
     Inr (case allocate c (session ctx b) of
            Some e \<Rightarrow> ([], Some (Errorf ''failed to execute tasks: '' e))
          | None \<Rightarrow>
              (case navigate c (session ctx b) (url w) of
                 Some e \<Rightarrow> ([], Some (Errorf ''failed to execute tasks: '' e))
               | None \<Rightarrow>
                   (case captureScreenshot c (session ctx b)
                           (full_capture (Screenshot_screenshotOpts opts)) of
                      (shot, Some e) \<Rightarrow>
                        ([], Some (Errorf ''failed to execute tasks: ''
                                    (Errorf ''failed to capture screenshot: '' e)))
                    | (shot, None) \<Rightarrow> (shot, None))))"
  by (simp add: Screenshot_def Let_def session_def Run_Screenshot
      split: option.splits prod.splits)

lemma New_browser:
  "browser (New u opts) =
     Some (range_opts opts \<lparr>timeout = DefaultTimeout, userAgent = ''''\<rparr>)"
  by (simp add: New_def)

lemma New_url: "url (New u opts) = u"
  by (simp add: New_def)

section \<open>The numbers of the source\<close>

lemma float64_literals:
  "float64_value 0 = Some 0"
  "float64_value float64_1_0 = Some 1"
  "float64_value float64_8_5 = Some 8.5"
  "float64_value float64_11_0 = Some 11"
  "float64_value float64_minus_1_0 = Some (- 1)"
  by (simp_all add: float64_value_def Let_def float64_1_0_def float64_8_5_def
      float64_11_0_def float64_minus_1_0_def)

lemma float64_0_4_value:
  "float64_value float64_0_4 = Some (3602879701896397 / 2 ^ 53)"
  "float64_value (float64_0_4 - 1) = Some (7205759403792793 / 2 ^ 54)"
  "float64_value (float64_0_4 + 1) = Some (7205759403792795 / 2 ^ 54)"
  by (simp_all add: float64_value_def Let_def float64_0_4_def)

lemma float64_0_4_nearest:
  "\<bar>3602879701896397 / 2 ^ 53 - 0.4 :: real\<bar> < \<bar>7205759403792793 / 2 ^ 54 - 0.4\<bar>"
  "\<bar>3602879701896397 / 2 ^ 53 - 0.4 :: real\<bar> < \<bar>7205759403792795 / 2 ^ 54 - 0.4\<bar>"
  by simp_all

section \<open>Properties\<close>

text \<open>
  C4. \<^verbatim>\<open>New(url)\<close> without options gives a handle for \<open>url\<close> whose browser options have the
  timeout \<^verbatim>\<open>DefaultTimeout\<close>, which is 30 seconds (30000000000 nanoseconds, read as a signed
  64-bit number), and the empty user agent; with these options no user-agent flag is among
  the launch flags.
\<close>

theorem New_defaults:
  "New u [] = \<lparr>url = u, browser = Some \<lparr>timeout = DefaultTimeout, userAgent = ''''\<rparr>\<rparr> \<and>
   DefaultTimeout = 30 * Second \<and>
   sint DefaultTimeout = 30 * 1000000000 \<and>
   execOpts \<lparr>timeout = DefaultTimeout, userAgent = ''''\<rparr> = [DisableGPU, NoSandbox, Headless]"
  by (simp add: New_def DefaultTimeout_def Second_def execOpts_def)

text \<open>
  C9. For every handle (also one whose \<open>browser\<close> pointer is nil), every driver, context and
  list of options, the struct the handle points to is after \<^verbatim>\<open>PDF\<close> and after \<^verbatim>\<open>Screenshot\<close>
  what it was before: the same url and the same browser options, whether the call returned
  bytes, returned an error or panicked.
\<close>

theorem export_leaves_handle:
  "handle (PDF c w ctx opts) = w \<and> handle (Screenshot c w ctx sopts) = w"
  by (simp add: PDF_handle Screenshot_handle)

subsection \<open>What reaches the browser layer\<close>

lemma printToPDF_params_PDF:
  "printToPDF_params (calls (PDF c w ctx opts)) =
     (case browser w of
        None \<Rightarrow> []
      | Some b \<Rightarrow>
          if export_reached c (session ctx b) (url w)
          then [verbatim (PDF_pdfOpts opts)] else [])"
  by (cases "browser w") (simp_all add: PDF_nil PDF_calls export_reached_def)

lemma captureScreenshot_params_Screenshot:
  "captureScreenshot_params (calls (Screenshot c w ctx opts)) =
     (case browser w of
        None \<Rightarrow> []
      | Some b \<Rightarrow>
          if export_reached c (session ctx b) (url w)
          then [full_capture (Screenshot_screenshotOpts opts)] else [])"
  by (cases "browser w") (simp_all add: Screenshot_nil Screenshot_calls export_reached_def)

lemma launch_flags_PDF:
  "launch_flags (calls (PDF c w ctx opts)) =
     (case browser w of None \<Rightarrow> [] | Some b \<Rightarrow> [Some (execOpts b)])"
  by (cases "browser w") (simp_all add: PDF_nil PDF_calls session_def)

lemma launch_flags_Screenshot:
  "launch_flags (calls (Screenshot c w ctx opts)) =
     (case browser w of None \<Rightarrow> [] | Some b \<Rightarrow> [Some (execOpts b)])"
  by (cases "browser w") (simp_all add: Screenshot_nil Screenshot_calls session_def)

text \<open>
  C5. Without options the struct \<^verbatim>\<open>Screenshot\<close> works with is format "png" and quality 100,
  and for every handle, driver and context the capture call, when the run reaches it (the
  handle has browser options, the browser was allocated and the navigation succeeded), is
  made once, with format "png" and quality 100.
\<close>

theorem Screenshot_default_options:
  "Screenshot_screenshotOpts [] = \<lparr>format = ''png'', quality = 100\<rparr> \<and>
   captureScreenshot_params (calls (Screenshot c w ctx [])) =
     (case browser w of
        None \<Rightarrow> []
      | Some b \<Rightarrow>
          if export_reached c (session ctx b) (url w)
          then [\<lparr>Format = ''png'', Quality = 100, FromSurface = True,
                 CaptureBeyondViewport = True\<rparr>]
          else [])"
  by (simp add: captureScreenshot_params_Screenshot Screenshot_screenshotOpts_def
      full_capture_def split: option.splits)

text \<open>The theorem with a driver that serves: one capture call, "png" and 100.\<close>

theorem Screenshot_default_options_witness:
  "captureScreenshot_params
     (calls (Screenshot serves (New ''https://example.com'' []) Background [])) =
     [\<lparr>Format = ''png'', Quality = 100, FromSurface = True, CaptureBeyondViewport = True\<rparr>]"
  using Screenshot_default_options [of serves "New ''https://example.com'' []" Background]
  by (simp add: New_def export_reached_def serves_def)

text \<open>
  C7. For every handle, driver, context and list of options (any functions on the options
  struct, not only the package's setters), the capture call of \<^verbatim>\<open>Screenshot\<close>, when the run
  reaches it, is made once, with capture-beyond-viewport and from-surface both true and with
  the format and the quality of the options struct the caller's options produced; for the
  options \<^verbatim>\<open>WithFormat(f), WithQuality(q)\<close> these are \<open>f\<close> and \<open>q\<close>.
\<close>

theorem Screenshot_capture_modes:
  "captureScreenshot_params (calls (Screenshot c w ctx opts)) =
     (case browser w of
        None \<Rightarrow> []
      | Some b \<Rightarrow>
          if export_reached c (session ctx b) (url w)
          then [\<lparr>Format = format (Screenshot_screenshotOpts opts),
                 Quality = quality (Screenshot_screenshotOpts opts),
                 FromSurface = True, CaptureBeyondViewport = True\<rparr>]
          else []) \<and>
   Screenshot_screenshotOpts [WithFormat f, WithQuality q] = \<lparr>format = f, quality = q\<rparr>"
  by (simp add: captureScreenshot_params_Screenshot Screenshot_screenshotOpts_def
      full_capture_def WithFormat_def WithQuality_def split: option.splits)

text \<open>The theorem with a driver that serves, a format and a quality given twice.\<close>

theorem Screenshot_capture_modes_witness:
  "captureScreenshot_params
     (calls (Screenshot serves (New ''https://example.com'' []) Background
               [WithFormat ''jpeg'', WithQuality 80, WithQuality 500])) =
     [\<lparr>Format = ''jpeg'', Quality = 500, FromSurface = True, CaptureBeyondViewport = True\<rparr>]"
  using Screenshot_capture_modes
    [of serves "New ''https://example.com'' []" Background
        "[WithFormat ''jpeg'', WithQuality 80, WithQuality 500]"]
  by (simp add: New_def export_reached_def serves_def Screenshot_screenshotOpts_def
      WithFormat_def WithQuality_def)

text \<open>
  C10. In \<^verbatim>\<open>PDF\<close> and in \<^verbatim>\<open>Screenshot\<close> the browser is launched with the three fixed flags,
  followed by the user-agent flag exactly when the stored user agent is not the empty
  string; the flag then carries the stored string. A handle made with
  \<^verbatim>\<open>WithUserAgent("")\<close> is the handle made with no option, and its browser is launched with
  the three fixed flags only.
\<close>

theorem empty_user_agent_is_unset:
  "launch_flags (calls (PDF c w ctx opts)) =
     (case browser w of
        None \<Rightarrow> []
      | Some b \<Rightarrow>
          [Some (if userAgent b = '''' then [DisableGPU, NoSandbox, Headless]
                 else [DisableGPU, NoSandbox, Headless, UserAgent (userAgent b)])]) \<and>
   launch_flags (calls (Screenshot c w ctx sopts)) =
     (case browser w of
        None \<Rightarrow> []
      | Some b \<Rightarrow>
          [Some (if userAgent b = '''' then [DisableGPU, NoSandbox, Headless]
                 else [DisableGPU, NoSandbox, Headless, UserAgent (userAgent b)])]) \<and>
   (UserAgent ua \<in> set (execOpts b)) = (ua = userAgent b \<and> userAgent b \<noteq> '''') \<and>
   New u [WithUserAgent ''''] = New u [] \<and>
   launch_flags (calls (PDF c (New u [WithUserAgent '''']) ctx opts)) =
     [Some [DisableGPU, NoSandbox, Headless]] \<and>
   launch_flags (calls (Screenshot c (New u [WithUserAgent '''']) ctx sopts)) =
     [Some [DisableGPU, NoSandbox, Headless]]"
  by (auto simp add: launch_flags_PDF launch_flags_Screenshot execOpts_def New_def Let_def
      WithUserAgent_def split: option.splits)

text \<open>The theorem at a handle with a user agent and at one with the empty user agent.\<close>

theorem empty_user_agent_is_unset_witness:
  "launch_flags (calls (PDF serves (New ''https://example.com'' [WithUserAgent ''curl/8''])
                          Background [])) =
     [Some [DisableGPU, NoSandbox, Headless, UserAgent ''curl/8'']] \<and>
   launch_flags (calls (Screenshot serves (New ''https://example.com'' [WithUserAgent ''''])
                          Background [])) =
     [Some [DisableGPU, NoSandbox, Headless]]"
  using empty_user_agent_is_unset
    [of serves "New ''https://example.com'' [WithUserAgent ''curl/8'']" Background "[]"
        "[]" _ _ "''https://example.com''"]
  by (simp add: New_def WithUserAgent_def)

subsection \<open>Sequences of setters\<close>

lemma last_or_Nil: "last_or d [] = d"
  by (simp add: last_or_def)

lemma last_or_snoc: "last_or d (vs @ [v]) = v"
  by (simp add: last_or_def)

lemma BrowserOptions_setters:
  "range_opts (map BrowserOption_of bs) \<lparr>timeout = t0, userAgent = a0\<rparr> =
     \<lparr>timeout = last_or t0 [v. SetTimeout v \<leftarrow> bs],
      userAgent = last_or a0 [v. SetUserAgent v \<leftarrow> bs]\<rparr>"
proof (induction bs rule: rev_induct)
  case Nil
  show ?case by (simp add: last_or_Nil)
next
  case (snoc x xs)
  then show ?case
    by (cases x)
       (simp_all add: range_opts_append last_or_snoc WithTimeout_def WithUserAgent_def)
qed

lemma PDFOptions_setters:
  "range_opts (map PDFOption_of ps)
     \<lparr>landscape = l0, background = b0, scale = s0, pagerWidth = w0, pagerHeight = h0,
      marginTop = mt0, marginBottom = mb0, marginLeft = ml0, marginRight = mr0,
      pageRanges = r0\<rparr> =
     \<lparr>landscape = last_or l0 [v. SetLandscape v \<leftarrow> ps],
      background = last_or b0 [v. SetBackground v \<leftarrow> ps],
      scale = last_or s0 [v. SetScale v \<leftarrow> ps],
      pagerWidth = last_or w0 [v. SetPaperWidth v \<leftarrow> ps],
      pagerHeight = last_or h0 [v. SetPaperHeight v \<leftarrow> ps],
      marginTop = last_or mt0 [v. SetMarginTop v \<leftarrow> ps],
      marginBottom = last_or mb0 [v. SetMarginBottom v \<leftarrow> ps],
      marginLeft = last_or ml0 [v. SetMarginLeft v \<leftarrow> ps],
      marginRight = last_or mr0 [v. SetMarginRight v \<leftarrow> ps],
      pageRanges = last_or r0 [v. SetPageRanges v \<leftarrow> ps]\<rparr>"
proof (induction ps rule: rev_induct)
  case Nil
  show ?case by (simp add: last_or_Nil)
next
  case (snoc x xs)
  then show ?case
    by (cases x)
       (simp_all add: range_opts_append last_or_snoc WithLandscape_def WithBackground_def
          WithScale_def WithPaperWidth_def WithPaperHeight_def WithMarginTop_def
          WithMarginBottom_def WithMarginLeft_def WithMarginRight_def WithPageRanges_def)
qed

lemma ScreenshotOptions_setters:
  "range_opts (map ScreenshotOption_of ss) \<lparr>format = f0, quality = q0\<rparr> =
     \<lparr>format = last_or f0 [v. SetFormat v \<leftarrow> ss],
      quality = last_or q0 [v. SetQuality v \<leftarrow> ss]\<rparr>"
proof (induction ss rule: rev_induct)
  case Nil
  show ?case by (simp add: last_or_Nil)
next
  case (snoc x xs)
  then show ?case
    by (cases x)
       (simp_all add: range_opts_append last_or_snoc WithFormat_def WithQuality_def)
qed

text \<open>
  C3. For each of the three kinds of options struct and every sequence of calls of its
  setters, applied in order to the struct the code starts from (\<^verbatim>\<open>DefaultTimeout\<close> and no
  user agent in \<^verbatim>\<open>New\<close>, the zero struct in \<^verbatim>\<open>PDF\<close>, "png" and 100 in \<^verbatim>\<open>Screenshot\<close>), every
  field of the result holds the value of the last call in the sequence that sets this
  field, and the field's starting value when no call in the sequence sets it.
\<close>

theorem setters_last_write_wins:
  "browser (New u (map BrowserOption_of bs)) =
     Some \<lparr>timeout = last_or DefaultTimeout [v. SetTimeout v \<leftarrow> bs],
           userAgent = last_or '''' [v. SetUserAgent v \<leftarrow> bs]\<rparr> \<and>
   PDF_pdfOpts (map PDFOption_of ps) =
     \<lparr>landscape = last_or False [v. SetLandscape v \<leftarrow> ps],
      background = last_or False [v. SetBackground v \<leftarrow> ps],
      scale = last_or 0 [v. SetScale v \<leftarrow> ps],
      pagerWidth = last_or 0 [v. SetPaperWidth v \<leftarrow> ps],
      pagerHeight = last_or 0 [v. SetPaperHeight v \<leftarrow> ps],
      marginTop = last_or 0 [v. SetMarginTop v \<leftarrow> ps],
      marginBottom = last_or 0 [v. SetMarginBottom v \<leftarrow> ps],
      marginLeft = last_or 0 [v. SetMarginLeft v \<leftarrow> ps],
      marginRight = last_or 0 [v. SetMarginRight v \<leftarrow> ps],
      pageRanges = last_or '''' [v. SetPageRanges v \<leftarrow> ps]\<rparr> \<and>
   Screenshot_screenshotOpts (map ScreenshotOption_of ss) =
     \<lparr>format = last_or ''png'' [v. SetFormat v \<leftarrow> ss],
      quality = last_or 100 [v. SetQuality v \<leftarrow> ss]\<rparr>"
  by (simp only: New_browser PDF_pdfOpts_def Screenshot_screenshotOpts_def
      BrowserOptions_setters PDFOptions_setters ScreenshotOptions_setters simp_thms)

text \<open>The theorem at three sequences that set a field twice.\<close>

theorem setters_last_write_wins_witness:
  "browser (New ''https://example.com''
              [WithTimeout (5 * Second), WithUserAgent ''a'', WithTimeout (10 * Second)]) =
     Some \<lparr>timeout = 10 * Second, userAgent = ''a''\<rparr> \<and>
   PDF_pdfOpts [WithScale float64_8_5, WithLandscape True, WithScale float64_1_0] =
     \<lparr>landscape = True, background = False, scale = float64_1_0, pagerWidth = 0,
      pagerHeight = 0, marginTop = 0, marginBottom = 0, marginLeft = 0, marginRight = 0,
      pageRanges = ''''\<rparr> \<and>
   Screenshot_screenshotOpts [WithQuality 50, WithQuality 80] =
     \<lparr>format = ''png'', quality = 80\<rparr>"
  using setters_last_write_wins
    [of "''https://example.com''"
        "[SetTimeout (5 * Second), SetUserAgent ''a'', SetTimeout (10 * Second)]"
        "[SetScale float64_8_5, SetLandscape True, SetScale float64_1_0]"
        "[SetQuality 50, SetQuality 80]"]
  by (simp add: last_or_def)

subsection \<open>Failures\<close>

text \<open>
  C2, as amended. For a handle with browser options and every driver, context and options,
  in \<^verbatim>\<open>PDF\<close> and in \<^verbatim>\<open>Screenshot\<close>: when the browser cannot be allocated or the navigation
  fails with error \<open>e\<close>, the method returns no bytes and the error that wraps \<open>e\<close> under
  "failed to execute tasks: ", the same in both cases; when the navigation succeeds and the
  print or capture call returns the error \<open>e\<close>, together with whatever bytes, the method
  returns no bytes and the error that wraps, under "failed to execute tasks: ", the error
  that wraps \<open>e\<close> under the descriptor of the call, "failed to generate PDF: " or "failed to
  capture screenshot: ". Only a failed print or capture call is named by the returned
  error; for a failed navigation the returned error holds the driver's error and nothing
  that names the navigation.
\<close>

theorem export_failure:
  "browser w = Some b \<Longrightarrow>
   (allocate c (session ctx b) = Some e \<longrightarrow>
      result (PDF c w ctx opts) = Inr ([], Some (Errorf ''failed to execute tasks: '' e)) \<and>
      result (Screenshot c w ctx sopts) =
        Inr ([], Some (Errorf ''failed to execute tasks: '' e))) \<and>
   (allocate c (session ctx b) = None \<longrightarrow>
      (navigate c (session ctx b) (url w) = Some e \<longrightarrow>
         result (PDF c w ctx opts) = Inr ([], Some (Errorf ''failed to execute tasks: '' e)) \<and>
         result (Screenshot c w ctx sopts) =
           Inr ([], Some (Errorf ''failed to execute tasks: '' e))) \<and>
      (navigate c (session ctx b) (url w) = None \<longrightarrow>
         (printToPDF c (session ctx b) (verbatim (PDF_pdfOpts opts)) = (pdf, stream, Some e) \<longrightarrow>
            result (PDF c w ctx opts) =
              Inr ([], Some (Errorf ''failed to execute tasks: ''
                              (Errorf ''failed to generate PDF: '' e)))) \<and>
         (captureScreenshot c (session ctx b) (full_capture (Screenshot_screenshotOpts sopts)) =
            (shot, Some e) \<longrightarrow>
            result (Screenshot c w ctx sopts) =
              Inr ([], Some (Errorf ''failed to execute tasks: ''
                              (Errorf ''failed to capture screenshot: '' e))))))"
  by (simp add: PDF_result Screenshot_result)

theorem export_failure_witness:
  "result (PDF unreachable (New ''not-a-real-url'' []) Background []) =
     Inr ([], Some (Errorf ''failed to execute tasks: ''
                     (External ''page load error net::ERR_NAME_NOT_RESOLVED''))) \<and>
   result (Screenshot unreachable (New ''not-a-real-url'' []) Background []) =
     Inr ([], Some (Errorf ''failed to execute tasks: ''
                     (External ''page load error net::ERR_NAME_NOT_RESOLVED''))) \<and>
   result (PDF export_fails (New ''https://example.com'' []) Background
             [WithPageRanges ''x'']) =
     Inr ([], Some (Errorf ''failed to execute tasks: ''
                     (Errorf ''failed to generate PDF: ''
                        (External ''Page range syntax error'')))) \<and>
   result (Screenshot export_fails (New ''https://example.com'' []) Background
             [WithFormat ''gif'']) =
     Inr ([], Some (Errorf ''failed to execute tasks: ''
                     (Errorf ''failed to capture screenshot: ''
                        (External ''Invalid parameters''))))"
proof -
  let ?b = "\<lparr>timeout = DefaultTimeout, userAgent = ''''\<rparr>"
  have b1: "browser (New ''not-a-real-url'' []) = Some ?b"
    by (simp add: New_def)
  have b2: "browser (New ''https://example.com'' []) = Some ?b"
    by (simp add: New_def)
  note nav = export_failure [OF b1, of unreachable Background
      "External ''page load error net::ERR_NAME_NOT_RESOLVED''" "[]" "[]"]
  note pdf = export_failure [OF b2, of export_fails Background
      "External ''Page range syntax error''" "[WithPageRanges ''x'']" "[WithFormat ''gif'']"
      "[0x25, 0x50]" "''''"]
  note shot = export_failure [OF b2, of export_fails Background
      "External ''Invalid parameters''" "[WithPageRanges ''x'']" "[WithFormat ''gif'']"
      _ _ "[0x89, 0x50]"]
  from nav pdf shot show ?thesis
    by (simp add: unreachable_def export_fails_def)
qed

text \<open>
  C2 as stated fails for the navigation: the returned error does not tell which call
  failed. With a deadline that passes while the page loads, the navigation is called and
  fails; with a deadline that passes while the browser is allocated, the navigation is never
  called. Both methods return the same error in the two runs.
\<close>

theorem navigation_failure_not_identified:
  "result (PDF slow_page (New ''https://example.com'' []) Background []) =
     Inr ([], Some (Errorf ''failed to execute tasks: ''
                     (External ''context deadline exceeded''))) \<and>
   result (PDF no_browser (New ''https://example.com'' []) Background []) =
     Inr ([], Some (Errorf ''failed to execute tasks: ''
                     (External ''context deadline exceeded''))) \<and>
   result (Screenshot slow_page (New ''https://example.com'' []) Background []) =
     result (Screenshot no_browser (New ''https://example.com'' []) Background []) \<and>
   Page_navigate ''https://example.com'' \<in>
     set (calls (PDF slow_page (New ''https://example.com'' []) Background [])) \<and>
   Page_navigate ''https://example.com'' \<notin>
     set (calls (PDF no_browser (New ''https://example.com'' []) Background [])) \<and>
   Error (Errorf ''failed to execute tasks: '' (External ''context deadline exceeded'')) =
     ''failed to execute tasks: context deadline exceeded''"
proof -
  have b: "browser (New ''https://example.com'' []) =
      Some \<lparr>timeout = DefaultTimeout, userAgent = ''''\<rparr>"
    by (simp add: New_def)
  show ?thesis
    by (simp add: PDF_result [OF b] Screenshot_result [OF b] PDF_calls [OF b]
        slow_page_def no_browser_def New_url)
qed

subsection \<open>The command line\<close>

lemma cmd_page_eq:
  "cmd_page f u =
     \<lparr>url = u, browser = Some \<lparr>timeout = flag_timeout f, userAgent = flag_userAgent f\<rparr>\<rparr>"
  by (simp add: cmd_page_def New_def Let_def WithTimeout_def WithUserAgent_def)

lemma pdfCmd_pdfOpts_eq:
  "PDF_pdfOpts (pdfCmd_pdfOpts f) =
     \<lparr>landscape = flag_landscape f, background = flag_background f, scale = flag_scale f,
      pagerWidth = flag_paperWidth f, pagerHeight = flag_paperHeight f,
      marginTop = flag_marginTop f, marginBottom = flag_marginBottom f,
      marginLeft = flag_marginLeft f, marginRight = flag_marginRight f,
      pageRanges = flag_pageRanges f\<rparr>"
  by (simp add: PDF_pdfOpts_def pdfCmd_pdfOpts_def Let_def WithLandscape_def
      WithBackground_def WithScale_def WithPaperWidth_def WithPaperHeight_def
      WithMarginTop_def WithMarginBottom_def WithMarginLeft_def WithMarginRight_def
      WithPageRanges_def)

lemma main_pdfCmd:
  "main e pdfCmd f [u] w =
     (let out = PDF (driver e) (cmd_page f u) Background (pdfCmd_pdfOpts f);
          w1 = w\<lparr>browser_calls := browser_calls w @ calls out\<rparr>
      in case result out of
           Inl p \<Rightarrow> (w1, Inl p)
         | Inr (pdf, Some err) \<Rightarrow>
             (w1\<lparr>stderr :=
                   stderr w @
                   cobra_report e pdfCmd (Errorf ''failed to generate PDF: '' err) @
                   ''Error: '' @ ''failed to generate PDF: '' @ Error err @ newline\<rparr>,
              Inr 1)
         | Inr (pdf, None) \<Rightarrow>
             (case os_WriteFile e (files w) (flag_output f) pdf of
                (fs, Some err) \<Rightarrow>
                  (w1\<lparr>files := fs,
                      stderr :=
                        stderr w @
                        cobra_report e pdfCmd (Errorf ''failed to write PDF file: '' err) @
                        ''Error: '' @ ''failed to write PDF file: '' @ Error err @ newline\<rparr>,
                   Inr 1)
              | (fs, None) \<Rightarrow>
                  (w1\<lparr>files := fs,
                      stdout := stdout w @ ''PDF saved to: '' @ flag_output f @ newline\<rparr>,
                   Inr 0)))"
  by (simp add: main_def rootCmd_Execute_def cobra_ExactArgs_def pdfCmd_RunE_def Let_def
      split: sum.splits option.splits prod.splits)

lemma main_screenshotCmd:
  "main e screenshotCmd f [u] w =
     (let out = Screenshot (driver e) (cmd_page f u) Background
                  [WithFormat (flag_format f), WithQuality (flag_quality f)];
          w1 = w\<lparr>browser_calls := browser_calls w @ calls out\<rparr>
      in case result out of
           Inl p \<Rightarrow> (w1, Inl p)
         | Inr (shot, Some err) \<Rightarrow>
             (w1\<lparr>stderr :=
                   stderr w @
                   cobra_report e screenshotCmd
                     (Errorf ''failed to capture screenshot: '' err) @
                   ''Error: '' @ ''failed to capture screenshot: '' @ Error err @ newline\<rparr>,
              Inr 1)
         | Inr (shot, None) \<Rightarrow>
             (case os_WriteFile e (files w) (flag_output f) shot of
                (fs, Some err) \<Rightarrow>
                  (w1\<lparr>files := fs,
                      stderr :=
                        stderr w @
                        cobra_report e screenshotCmd
                          (Errorf ''failed to write screenshot file: '' err) @
                        ''Error: '' @ ''failed to write screenshot file: '' @ Error err @
                        newline\<rparr>,
                   Inr 1)
              | (fs, None) \<Rightarrow>
                  (w1\<lparr>files := fs,
                      stdout :=
                        stdout w @ ''Screenshot saved to: '' @ flag_output f @ newline\<rparr>,
                   Inr 0)))"
  by (simp add: main_def rootCmd_Execute_def cobra_ExactArgs_def screenshotCmd_RunE_def Let_def
      split: sum.splits option.splits prod.splits)

text \<open>
  C6, as amended. A command line with one positional argument, for which the export returns
  an error \<open>err\<close>: the process ends with exit code 1. It writes to standard error the line
  "Error: ", the stage descriptor ("failed to generate PDF: " for \<^verbatim>\<open>pdf\<close>, "failed to capture
  screenshot: " for \<^verbatim>\<open>screenshot\<close>) and the text of \<open>err\<close>, then the usage text of the
  subcommand, then the same error line once more: the first two come from the framework,
  the last from \<^verbatim>\<open>main\<close>. Nothing is written to standard output and the files are what they
  were. When the export returns bytes and no error, the files are what \<^verbatim>\<open>os.WriteFile\<close> makes
  of them for the output path and these bytes: the file is written only then. Every line
  ends with the line feed character.
\<close>

theorem cli_export_failure:
  "(result (PDF (driver e) (cmd_page f u) Background (pdfCmd_pdfOpts f)) = Inr (pdf, Some err) \<longrightarrow>
      main e pdfCmd f [u] w =
        (w\<lparr>browser_calls :=
              browser_calls w @ calls (PDF (driver e) (cmd_page f u) Background (pdfCmd_pdfOpts f)),
            stderr :=
              stderr w @
              ''Error: failed to generate PDF: '' @ Error err @ newline @
              UsageString e pdfCmd @ newline @
              ''Error: failed to generate PDF: '' @ Error err @ newline\<rparr>,
         Inr 1) \<and>
      files (fst (main e pdfCmd f [u] w)) = files w) \<and>
   (result (Screenshot (driver e) (cmd_page f u) Background
              [WithFormat (flag_format f), WithQuality (flag_quality f)]) = Inr (shot, Some err) \<longrightarrow>
      main e screenshotCmd f [u] w =
        (w\<lparr>browser_calls :=
              browser_calls w @
              calls (Screenshot (driver e) (cmd_page f u) Background
                       [WithFormat (flag_format f), WithQuality (flag_quality f)]),
            stderr :=
              stderr w @
              ''Error: failed to capture screenshot: '' @ Error err @ newline @
              UsageString e screenshotCmd @ newline @
              ''Error: failed to capture screenshot: '' @ Error err @ newline\<rparr>,
         Inr 1) \<and>
      files (fst (main e screenshotCmd f [u] w)) = files w) \<and>
   (result (PDF (driver e) (cmd_page f u) Background (pdfCmd_pdfOpts f)) = Inr (pdf, None) \<longrightarrow>
      files (fst (main e pdfCmd f [u] w)) =
        fst (os_WriteFile e (files w) (flag_output f) pdf)) \<and>
   (result (Screenshot (driver e) (cmd_page f u) Background
              [WithFormat (flag_format f), WithQuality (flag_quality f)]) = Inr (shot, None) \<longrightarrow>
      files (fst (main e screenshotCmd f [u] w)) =
        fst (os_WriteFile e (files w) (flag_output f) shot)) \<and>
   newline = [CHR 0x0A]"
  by (simp add: main_pdfCmd main_screenshotCmd cobra_report_def Let_def newline_def
      split: prod.splits option.splits)

text \<open>
  The theorem at the command line \<^verbatim>\<open>pdf not-a-real-url -o out.pdf\<close> (and the same for
  \<^verbatim>\<open>screenshot\<close>) with a navigation that fails: exit code 1, the error line before and after
  the usage text, and the file \<^verbatim>\<open>out.pdf\<close> that was there is still there. With a driver that
  serves, the file holds the exported bytes.
\<close>

theorem cli_export_failure_witness:
  "snd (main offline pdfCmd (init\<lparr>flag_output := ''out.pdf''\<rparr>) [''not-a-real-url''] disk) =
     Inr 1 \<and>
   stderr (fst (main offline pdfCmd (init\<lparr>flag_output := ''out.pdf''\<rparr>) [''not-a-real-url'']
                  disk)) =
     ''Error: failed to generate PDF: failed to execute tasks: '' @
     ''page load error net::ERR_NAME_NOT_RESOLVED'' @ newline @
     ''Usage:'' @ newline @
     ''  webpage pdf [url] [flags]'' @ newline @
     ''Error: failed to generate PDF: failed to execute tasks: '' @
     ''page load error net::ERR_NAME_NOT_RESOLVED'' @ newline \<and>
   files (fst (main offline pdfCmd (init\<lparr>flag_output := ''out.pdf''\<rparr>) [''not-a-real-url'']
                 disk)) ''out.pdf'' = Some [0x6F, 0x6C, 0x64] \<and>
   snd (main offline screenshotCmd (init\<lparr>flag_output := ''out.pdf''\<rparr>) [''not-a-real-url'']
          disk) = Inr 1 \<and>
   stderr (fst (main offline screenshotCmd (init\<lparr>flag_output := ''out.pdf''\<rparr>)
                  [''not-a-real-url''] disk)) =
     ''Error: failed to capture screenshot: failed to execute tasks: '' @
     ''page load error net::ERR_NAME_NOT_RESOLVED'' @ newline @
     ''Usage:'' @ newline @
     ''  webpage screenshot [url] [flags]'' @ newline @
     ''Error: failed to capture screenshot: failed to execute tasks: '' @
     ''page load error net::ERR_NAME_NOT_RESOLVED'' @ newline \<and>
   files (fst (main offline screenshotCmd (init\<lparr>flag_output := ''out.pdf''\<rparr>)
                 [''not-a-real-url''] disk)) ''out.pdf'' = Some [0x6F, 0x6C, 0x64] \<and>
   files (fst (main online pdfCmd (init\<lparr>flag_output := ''out.pdf''\<rparr>)
                 [''https://example.com''] disk)) ''out.pdf'' =
     Some [0x25, 0x50, 0x44, 0x46, 0x2D] \<and>
   files (fst (main online screenshotCmd (init\<lparr>flag_output := ''out.pdf''\<rparr>)
                 [''https://example.com''] disk)) ''out.pdf'' =
     Some [0x89, 0x50, 0x4E, 0x47]"
proof -
  let ?f = "init\<lparr>flag_output := ''out.pdf''\<rparr>"
  let ?e = "Errorf ''failed to execute tasks: ''
              (External ''page load error net::ERR_NAME_NOT_RESOLVED'')"
  have b: "browser (cmd_page ?f u) = Some \<lparr>timeout = 30 * Second, userAgent = ''''\<rparr>" for u
    by (simp add: cmd_page_eq init_def)
  have pdf_fails:
    "result (PDF (driver offline) (cmd_page ?f ''not-a-real-url'') Background
       (pdfCmd_pdfOpts ?f)) = Inr ([], Some ?e)"
    by (simp add: PDF_result [OF b] offline_def unreachable_def)
  have shot_fails:
    "result (Screenshot (driver offline) (cmd_page ?f ''not-a-real-url'') Background
       [WithFormat (flag_format ?f), WithQuality (flag_quality ?f)]) = Inr ([], Some ?e)"
    by (simp add: Screenshot_result [OF b] offline_def unreachable_def)
  have pdf_ok:
    "result (PDF (driver online) (cmd_page ?f ''https://example.com'') Background
       (pdfCmd_pdfOpts ?f)) = Inr ([0x25, 0x50, 0x44, 0x46, 0x2D], None)"
    by (simp add: PDF_result [OF b] online_def serves_def)
  have shot_ok:
    "result (Screenshot (driver online) (cmd_page ?f ''https://example.com'') Background
       [WithFormat (flag_format ?f), WithQuality (flag_quality ?f)]) =
     Inr ([0x89, 0x50, 0x4E, 0x47], None)"
    by (simp add: Screenshot_result [OF b] online_def serves_def)
  note failing = cli_export_failure [of offline ?f "''not-a-real-url''" "[]" ?e disk "[]"]
  note serving_pdf = cli_export_failure
    [of online ?f "''https://example.com''" "[0x25, 0x50, 0x44, 0x46, 0x2D]" _ disk]
  note serving_shot = cli_export_failure
    [of online ?f "''https://example.com''" _ _ disk "[0x89, 0x50, 0x4E, 0x47]"]
  from failing pdf_fails shot_fails have
    "snd (main offline pdfCmd ?f [''not-a-real-url''] disk) = Inr 1"
    "stderr (fst (main offline pdfCmd ?f [''not-a-real-url''] disk)) =
       ''Error: failed to generate PDF: failed to execute tasks: '' @
       ''page load error net::ERR_NAME_NOT_RESOLVED'' @ newline @
       ''Usage:'' @ newline @
       ''  webpage pdf [url] [flags]'' @ newline @
       ''Error: failed to generate PDF: failed to execute tasks: '' @
       ''page load error net::ERR_NAME_NOT_RESOLVED'' @ newline"
    "files (fst (main offline pdfCmd ?f [''not-a-real-url''] disk)) = files disk"
    "snd (main offline screenshotCmd ?f [''not-a-real-url''] disk) = Inr 1"
    "stderr (fst (main offline screenshotCmd ?f [''not-a-real-url''] disk)) =
       ''Error: failed to capture screenshot: failed to execute tasks: '' @
       ''page load error net::ERR_NAME_NOT_RESOLVED'' @ newline @
       ''Usage:'' @ newline @
       ''  webpage screenshot [url] [flags]'' @ newline @
       ''Error: failed to capture screenshot: failed to execute tasks: '' @
       ''page load error net::ERR_NAME_NOT_RESOLVED'' @ newline"
    "files (fst (main offline screenshotCmd ?f [''not-a-real-url''] disk)) = files disk"
    by (simp_all add: offline_def disk_def usage_head_def)
  moreover from serving_pdf pdf_ok have
    "files (fst (main online pdfCmd ?f [''https://example.com''] disk)) ''out.pdf'' =
       Some [0x25, 0x50, 0x44, 0x46, 0x2D]"
    by (simp add: online_def disk_def init_def)
  moreover from serving_shot shot_ok have
    "files (fst (main online screenshotCmd ?f [''https://example.com''] disk)) ''out.pdf'' =
       Some [0x89, 0x50, 0x4E, 0x47]"
    by (simp add: online_def disk_def init_def)
  ultimately show ?thesis
    by (simp add: disk_def)
qed

text \<open>
  C6 as stated fails: at the command line \<^verbatim>\<open>pdf not-a-real-url -o out.pdf\<close> with a
  navigation that fails, what the process writes to standard error is not one line. The
  error line is there twice, with the usage text between; with the first two lines of the
  usage text that makes five lines.
\<close>

theorem cli_error_output_not_one_line:
  "stderr (fst (main offline pdfCmd (init\<lparr>flag_output := ''out.pdf''\<rparr>) [''not-a-real-url'']
                  disk)) =
     ''Error: failed to generate PDF: failed to execute tasks: '' @
     ''page load error net::ERR_NAME_NOT_RESOLVED'' @ newline @
     ''Usage:'' @ newline @
     ''  webpage pdf [url] [flags]'' @ newline @
     ''Error: failed to generate PDF: failed to execute tasks: '' @
     ''page load error net::ERR_NAME_NOT_RESOLVED'' @ newline \<and>
   count_list
     (stderr (fst (main offline pdfCmd (init\<lparr>flag_output := ''out.pdf''\<rparr>)
                     [''not-a-real-url''] disk)))
     (CHR 0x0A) = 4"
proof -
  let ?f = "init\<lparr>flag_output := ''out.pdf''\<rparr>"
  have b: "browser (cmd_page ?f ''not-a-real-url'') =
      Some \<lparr>timeout = 30 * Second, userAgent = ''''\<rparr>"
    by (simp add: cmd_page_eq init_def)
  have fails:
    "result (PDF (driver offline) (cmd_page ?f ''not-a-real-url'') Background
       (pdfCmd_pdfOpts ?f)) =
     Inr ([], Some (Errorf ''failed to execute tasks: ''
                     (External ''page load error net::ERR_NAME_NOT_RESOLVED'')))"
    by (simp add: PDF_result [OF b] offline_def unreachable_def)
  have out:
    "stderr (fst (main offline pdfCmd ?f [''not-a-real-url''] disk)) =
       ''Error: failed to generate PDF: failed to execute tasks: '' @
       ''page load error net::ERR_NAME_NOT_RESOLVED'' @ newline @
       ''Usage:'' @ newline @
       ''  webpage pdf [url] [flags]'' @ newline @
       ''Error: failed to generate PDF: failed to execute tasks: '' @
       ''page load error net::ERR_NAME_NOT_RESOLVED'' @ newline"
  proof -
    have "stderr (fst (main offline pdfCmd ?f [''not-a-real-url''] disk)) =
        stderr disk @
        cobra_report offline pdfCmd
          (Errorf ''failed to generate PDF: ''
             (Errorf ''failed to execute tasks: ''
                (External ''page load error net::ERR_NAME_NOT_RESOLVED''))) @
        ''Error: '' @ ''failed to generate PDF: '' @ ''failed to execute tasks: '' @
        ''page load error net::ERR_NAME_NOT_RESOLVED'' @ newline"
      by (simp add: main_pdfCmd fails Let_def)
    then show ?thesis
      by (simp add: cobra_report_def offline_def disk_def usage_head_def)
  qed
  show ?thesis
    unfolding out by (simp add: newline_def)
qed

subsection \<open>Defaults and forwarding\<close>

lemma printToPDF_params_append:
  "printToPDF_params (xs @ ys) = printToPDF_params xs @ printToPDF_params ys"
  by (induction xs rule: printToPDF_params.induct) simp_all

lemma launch_timeouts_PDF:
  "launch_timeouts (calls (PDF c w ctx opts)) =
     (case browser w of None \<Rightarrow> [] | Some b \<Rightarrow> [Some (timeout b)])"
  by (cases "browser w") (simp_all add: PDF_nil PDF_calls session_def)

lemma launch_timeouts_Screenshot:
  "launch_timeouts (calls (Screenshot c w ctx opts)) =
     (case browser w of None \<Rightarrow> [] | Some b \<Rightarrow> [Some (timeout b)])"
  by (cases "browser w") (simp_all add: Screenshot_nil Screenshot_calls session_def)

lemma main_pdfCmd_calls:
  "browser_calls (fst (main e pdfCmd f [u] w)) =
     browser_calls w @ calls (PDF (driver e) (cmd_page f u) Background (pdfCmd_pdfOpts f))"
  by (simp add: main_pdfCmd Let_def split: sum.splits prod.splits option.splits)

text \<open>
  C1. Through the library, with no PDF option, the print call (made once when the run
  reaches it, not at all otherwise) carries the zero values: landscape and background false,
  scale, paper width, paper height and the four margins 0, page ranges empty. Through the
  \<^verbatim>\<open>pdf\<close> subcommand with no flag set, the print call carries scale 1.0, width 8.5, height
  11.0 and the four margins 0.4 (landscape and background false, page ranges empty). The
  bit patterns stand for the numbers 0, 1, 8.5, 11 and, for the literal 0.4, the number
  3602879701896397 / 2^53, which is within 2^-55 of 0.4: the two surfaces have different
  defaults.
\<close>

theorem library_and_cli_defaults:
  "printToPDF_params (calls (PDF c w ctx [])) =
     (case browser w of
        None \<Rightarrow> []
      | Some b \<Rightarrow>
          if export_reached c (session ctx b) (url w)
          then [\<lparr>Landscape = False, PrintBackground = False, Scale = 0, PaperWidth = 0,
                 PaperHeight = 0, MarginTop = 0, MarginBottom = 0, MarginLeft = 0,
                 MarginRight = 0, PageRanges = ''''\<rparr>]
          else []) \<and>
   printToPDF_params (browser_calls (fst (main e pdfCmd init [u] wd))) =
     printToPDF_params (browser_calls wd) @
     (if export_reached (driver e)
           (session Background \<lparr>timeout = 30 * Second, userAgent = ''''\<rparr>) u
      then [\<lparr>Landscape = False, PrintBackground = False, Scale = float64_1_0,
             PaperWidth = float64_8_5, PaperHeight = float64_11_0,
             MarginTop = float64_0_4, MarginBottom = float64_0_4,
             MarginLeft = float64_0_4, MarginRight = float64_0_4, PageRanges = ''''\<rparr>]
      else []) \<and>
   float64_value 0 = Some 0 \<and>
   float64_value float64_1_0 = Some 1 \<and>
   float64_value float64_8_5 = Some 8.5 \<and>
   float64_value float64_11_0 = Some 11 \<and>
   float64_value float64_0_4 = Some (3602879701896397 / 2 ^ 53) \<and>
   \<bar>3602879701896397 / 2 ^ 53 - 0.4 :: real\<bar> < 1 / 2 ^ 55"
proof -
  have lib: "verbatim (PDF_pdfOpts []) =
      \<lparr>Landscape = False, PrintBackground = False, Scale = 0, PaperWidth = 0,
       PaperHeight = 0, MarginTop = 0, MarginBottom = 0, MarginLeft = 0,
       MarginRight = 0, PageRanges = ''''\<rparr>"
    by (simp add: verbatim_def PDF_pdfOpts_def)
  have cli: "verbatim (PDF_pdfOpts (pdfCmd_pdfOpts init)) =
      \<lparr>Landscape = False, PrintBackground = False, Scale = float64_1_0,
       PaperWidth = float64_8_5, PaperHeight = float64_11_0,
       MarginTop = float64_0_4, MarginBottom = float64_0_4,
       MarginLeft = float64_0_4, MarginRight = float64_0_4, PageRanges = ''''\<rparr>"
    by (simp add: verbatim_def pdfCmd_pdfOpts_eq init_def)
  have page: "cmd_page init u =
      \<lparr>url = u, browser = Some \<lparr>timeout = 30 * Second, userAgent = ''''\<rparr>\<rparr>"
    by (simp add: cmd_page_eq init_def)
  have near: "\<bar>3602879701896397 / 2 ^ 53 - 0.4 :: real\<bar> < 1 / 2 ^ 55"
    by simp
  have surfaces:
    "printToPDF_params (calls (PDF c w ctx [])) =
       (case browser w of
          None \<Rightarrow> []
        | Some b \<Rightarrow>
            if export_reached c (session ctx b) (url w)
            then [\<lparr>Landscape = False, PrintBackground = False, Scale = 0, PaperWidth = 0,
                   PaperHeight = 0, MarginTop = 0, MarginBottom = 0, MarginLeft = 0,
                   MarginRight = 0, PageRanges = ''''\<rparr>]
            else [])"
    "printToPDF_params (browser_calls (fst (main e pdfCmd init [u] wd))) =
       printToPDF_params (browser_calls wd) @
       (if export_reached (driver e)
             (session Background \<lparr>timeout = 30 * Second, userAgent = ''''\<rparr>) u
        then [\<lparr>Landscape = False, PrintBackground = False, Scale = float64_1_0,
               PaperWidth = float64_8_5, PaperHeight = float64_11_0,
               MarginTop = float64_0_4, MarginBottom = float64_0_4,
               MarginLeft = float64_0_4, MarginRight = float64_0_4, PageRanges = ''''\<rparr>]
        else [])"
    by (simp_all add: printToPDF_params_PDF lib cli page main_pdfCmd_calls
        printToPDF_params_append split: option.splits)
  from surfaces near show ?thesis
    by (simp only: float64_literals float64_0_4_value simp_thms)
qed

text \<open>The theorem with a driver that serves: one print call on each surface, with these values.\<close>

theorem library_and_cli_defaults_witness:
  "printToPDF_params (calls (PDF serves (New ''https://example.com'' []) Background [])) =
     [\<lparr>Landscape = False, PrintBackground = False, Scale = 0, PaperWidth = 0,
       PaperHeight = 0, MarginTop = 0, MarginBottom = 0, MarginLeft = 0,
       MarginRight = 0, PageRanges = ''''\<rparr>] \<and>
   printToPDF_params (browser_calls (fst (main online pdfCmd init [''https://example.com'']
                                            disk))) =
     [\<lparr>Landscape = False, PrintBackground = False, Scale = float64_1_0,
       PaperWidth = float64_8_5, PaperHeight = float64_11_0,
       MarginTop = float64_0_4, MarginBottom = float64_0_4,
       MarginLeft = float64_0_4, MarginRight = float64_0_4, PageRanges = ''''\<rparr>]"
  using library_and_cli_defaults
    [of serves "New ''https://example.com'' []" Background online "''https://example.com''" disk]
  by (simp add: New_def export_reached_def serves_def online_def disk_def)

text \<open>
  C8, as amended. Every setter is a total function on the options struct with no failing
  branch; for every argument, in range or not, the field it sets holds the argument
  afterwards. The export forwards what is stored: the print call carries the fields of the
  PDF options unchanged (a top margin set last reaches the call as it is), the capture call
  carries the stored format and quality (a quality set last reaches the call as it is), and
  the stored timeout is the deadline the browser is allocated under. The stored user agent
  is passed as a launch flag when it is not the empty string; the empty string is stored
  but no user-agent flag is passed for it.
\<close>

theorem setters_store_exports_forward:
  "timeout (WithTimeout d bo) = d \<and>
   userAgent (WithUserAgent ua bo) = ua \<and>
   landscape (WithLandscape l po) = l \<and>
   background (WithBackground g po) = g \<and>
   scale (WithScale s po) = s \<and>
   pagerWidth (WithPaperWidth pw po) = pw \<and>
   pagerHeight (WithPaperHeight ph po) = ph \<and>
   marginTop (WithMarginTop mt po) = mt \<and>
   marginBottom (WithMarginBottom mb po) = mb \<and>
   marginLeft (WithMarginLeft ml po) = ml \<and>
   marginRight (WithMarginRight mr po) = mr \<and>
   pageRanges (WithPageRanges pr po) = pr \<and>
   format (WithFormat fm so) = fm \<and>
   quality (WithQuality q so) = q \<and>
   printToPDF_params (calls (PDF c w ctx opts)) =
     (case browser w of
        None \<Rightarrow> []
      | Some b \<Rightarrow>
          if export_reached c (session ctx b) (url w)
          then [verbatim (PDF_pdfOpts opts)] else []) \<and>
   MarginTop (verbatim (PDF_pdfOpts (opts @ [WithMarginTop mt]))) = mt \<and>
   captureScreenshot_params (calls (Screenshot c w ctx sopts)) =
     (case browser w of
        None \<Rightarrow> []
      | Some b \<Rightarrow>
          if export_reached c (session ctx b) (url w)
          then [full_capture (Screenshot_screenshotOpts sopts)] else []) \<and>
   Quality (full_capture (Screenshot_screenshotOpts (sopts @ [WithQuality q]))) = q \<and>
   launch_timeouts (calls (PDF c w ctx opts)) =
     (case browser w of None \<Rightarrow> [] | Some b \<Rightarrow> [Some (timeout b)]) \<and>
   launch_timeouts (calls (Screenshot c w ctx sopts)) =
     (case browser w of None \<Rightarrow> [] | Some b \<Rightarrow> [Some (timeout b)]) \<and>
   launch_flags (calls (PDF c w ctx opts)) =
     (case browser w of
        None \<Rightarrow> []
      | Some b \<Rightarrow>
          [Some (if userAgent b = '''' then [DisableGPU, NoSandbox, Headless]
                 else [DisableGPU, NoSandbox, Headless, UserAgent (userAgent b)])]) \<and>
   launch_flags (calls (Screenshot c w ctx sopts)) =
     (case browser w of
        None \<Rightarrow> []
      | Some b \<Rightarrow>
          [Some (if userAgent b = '''' then [DisableGPU, NoSandbox, Headless]
                 else [DisableGPU, NoSandbox, Headless, UserAgent (userAgent b)])])"
proof -
  have store:
    "timeout (WithTimeout d bo) = d" "userAgent (WithUserAgent ua bo) = ua"
    "landscape (WithLandscape l po) = l" "background (WithBackground g po) = g"
    "scale (WithScale s po) = s" "pagerWidth (WithPaperWidth pw po) = pw"
    "pagerHeight (WithPaperHeight ph po) = ph" "marginTop (WithMarginTop mt po) = mt"
    "marginBottom (WithMarginBottom mb po) = mb" "marginLeft (WithMarginLeft ml po) = ml"
    "marginRight (WithMarginRight mr po) = mr" "pageRanges (WithPageRanges pr po) = pr"
    "format (WithFormat fm so) = fm" "quality (WithQuality q so) = q"
    by (simp_all add: WithTimeout_def WithUserAgent_def WithLandscape_def WithBackground_def
        WithScale_def WithPaperWidth_def WithPaperHeight_def WithMarginTop_def
        WithMarginBottom_def WithMarginLeft_def WithMarginRight_def WithPageRanges_def
        WithFormat_def WithQuality_def)
  have margin: "MarginTop (verbatim (PDF_pdfOpts (opts @ [WithMarginTop mt]))) = mt"
    by (simp add: verbatim_def PDF_pdfOpts_def range_opts_append WithMarginTop_def)
  have qual: "Quality (full_capture (Screenshot_screenshotOpts (sopts @ [WithQuality q]))) = q"
    by (simp add: full_capture_def Screenshot_screenshotOpts_def range_opts_append
        WithQuality_def)
  have flags_pdf: "launch_flags (calls (PDF c w ctx opts)) =
     (case browser w of
        None \<Rightarrow> []
      | Some b \<Rightarrow>
          [Some (if userAgent b = '''' then [DisableGPU, NoSandbox, Headless]
                 else [DisableGPU, NoSandbox, Headless, UserAgent (userAgent b)])])"
    by (simp add: launch_flags_PDF execOpts_def Let_def split: option.splits)
  have flags_shot: "launch_flags (calls (Screenshot c w ctx sopts)) =
     (case browser w of
        None \<Rightarrow> []
      | Some b \<Rightarrow>
          [Some (if userAgent b = '''' then [DisableGPU, NoSandbox, Headless]
                 else [DisableGPU, NoSandbox, Headless, UserAgent (userAgent b)])])"
    by (simp add: launch_flags_Screenshot execOpts_def Let_def split: option.splits)
  show ?thesis
    by (simp only: store margin qual flags_pdf flags_shot printToPDF_params_PDF
        captureScreenshot_params_Screenshot launch_timeouts_PDF launch_timeouts_Screenshot
        simp_thms)
qed

text \<open>
  C8 as stated fails for the user agent: \<^verbatim>\<open>WithUserAgent("")\<close> stores the empty string, and
  the export then launches the browser with the three fixed flags, not with a user-agent
  flag that carries the stored string.
\<close>

theorem empty_user_agent_not_forwarded:
  "userAgent (WithUserAgent '''' \<lparr>timeout = DefaultTimeout, userAgent = ''''\<rparr>) = '''' \<and>
   launch_flags (calls (PDF serves (New ''https://example.com'' [WithUserAgent ''''])
                          Background [])) =
     [Some [DisableGPU, NoSandbox, Headless]] \<and>
   Some [DisableGPU, NoSandbox, Headless, UserAgent ''''] \<notin>
     set (launch_flags (calls (PDF serves (New ''https://example.com'' [WithUserAgent ''''])
                                 Background [])))"
  by (simp add: launch_flags_PDF New_def WithUserAgent_def execOpts_def)

text \<open>
  The theorem at a top margin of -1.0 and a quality of 500: both are stored and both reach
  the browser as they are.
\<close>

theorem setters_store_exports_forward_witness:
  "marginTop (WithMarginTop float64_minus_1_0 (PDF_pdfOpts [])) = float64_minus_1_0 \<and>
   quality (WithQuality 500 (Screenshot_screenshotOpts [])) = 500 \<and>
   sint (500 :: int64) = 500 \<and>
   printToPDF_params (calls (PDF serves (New ''https://example.com'' []) Background
                               [WithMarginTop float64_minus_1_0])) =
     [\<lparr>Landscape = False, PrintBackground = False, Scale = 0, PaperWidth = 0,
       PaperHeight = 0, MarginTop = float64_minus_1_0, MarginBottom = 0, MarginLeft = 0,
       MarginRight = 0, PageRanges = ''''\<rparr>] \<and>
   captureScreenshot_params (calls (Screenshot serves (New ''https://example.com'' [])
                                      Background [WithQuality 500])) =
     [\<lparr>Format = ''png'', Quality = 500, FromSurface = True, CaptureBeyondViewport = True\<rparr>]"
proof -
  note t = setters_store_exports_forward
    [where mt = float64_minus_1_0 and po = "PDF_pdfOpts []" and q = 500
       and so = "Screenshot_screenshotOpts []" and c = serves
       and w = "New ''https://example.com'' []" and ctx = Background
       and opts = "[WithMarginTop float64_minus_1_0]" and sopts = "[WithQuality 500]"]
  from t show ?thesis
    by (simp add: New_def export_reached_def serves_def verbatim_def full_capture_def
        PDF_pdfOpts_def Screenshot_screenshotOpts_def WithMarginTop_def WithQuality_def)
qed

end
